theory Spec2Isabelle
  imports Main
begin

section \<open>Go strings as sequences of code points\<close>

text \<open>
  The Go sources work on strings through \<^verbatim>\<open>[]rune(text)\<close>, \<^verbatim>\<open>strings.TrimSpace\<close>,
  \<^verbatim>\<open>strings.Join\<close> and a regular expression whose class holds ASCII characters only.
  A string is modelled as the list of its code points (Go's \<^verbatim>\<open>rune\<close>), so that code
  points beyond Latin-1 (Arabic-Indic digits, vulgar fractions) are single elements.
\<close>

type_synonym rune = nat
type_synonym gostring = "rune list"

definition ustr :: "string \<Rightarrow> gostring" where
  "ustr s = map of_char s"

text \<open>
  \<^verbatim>\<open>unicode.IsSpace\<close> of the Go standard library (the table \<^verbatim>\<open>unicode.White_Space\<close>):
  U+0009..U+000D, U+0020, U+0085, U+00A0, U+1680, U+2000..U+200A, U+2028, U+2029,
  U+202F, U+205F, U+3000.
\<close>

definition unicode_IsSpace :: "rune \<Rightarrow> bool" where
  "unicode_IsSpace r =
     ((9 \<le> r \<and> r \<le> 13) \<or> r = 32 \<or> r = 133 \<or> r = 160 \<or> r = 5760 \<or>
      (8192 \<le> r \<and> r \<le> 8202) \<or> r = 8232 \<or> r = 8233 \<or> r = 8239 \<or> r = 8287 \<or>
      r = 12288)"

text \<open>
  \<^verbatim>\<open>unicode.IsDigit\<close> of the Go standard library: the ASCII digits within Latin-1, and
  beyond Latin-1 the code points of the table \<^verbatim>\<open>unicode.Digit\<close> (category Nd, here as
  of Unicode 15.0.0), every range of which is a run of ten digits starting at the
  listed code point, except the mathematical digits U+1D7CE..U+1D7FF. The table
  belongs to the Go distribution, not to the repository; the statements below read
  it at ASCII characters and at the Arabic-Indic digits U+0660..U+0669 only.
\<close>

definition Nd_starts :: "rune list" where
  "Nd_starts =
     [0x0660, 0x06F0, 0x07C0, 0x0966, 0x09E6, 0x0A66, 0x0AE6, 0x0B66, 0x0BE6, 0x0C66,
      0x0CE6, 0x0D66, 0x0DE6, 0x0E50, 0x0ED0, 0x0F20, 0x1040, 0x1090, 0x17E0, 0x1810,
      0x1946, 0x19D0, 0x1A80, 0x1A90, 0x1B50, 0x1BB0, 0x1C40, 0x1C50, 0xA620, 0xA8D0,
      0xA900, 0xA9D0, 0xA9F0, 0xAA50, 0xABF0, 0xFF10, 0x104A0, 0x10D30, 0x11066,
      0x110F0, 0x11136, 0x111D0, 0x112F0, 0x11450, 0x114D0, 0x11650, 0x116C0, 0x11730,
      0x118E0, 0x11950, 0x11C50, 0x11D50, 0x11DA0, 0x11F50, 0x16A60, 0x16AC0, 0x16B50,
      0x1E140, 0x1E2F0, 0x1E4F0, 0x1E950, 0x1FBF0]"

definition unicode_IsDigit :: "rune \<Rightarrow> bool" where
  "unicode_IsDigit r =
     (if r \<le> 255 then 48 \<le> r \<and> r \<le> 57
      else list_ex (\<lambda>lo. lo \<le> r \<and> r \<le> lo + 9) Nd_starts \<or> (0x1D7CE \<le> r \<and> r \<le> 0x1D7FF))"

text \<open>\<^verbatim>\<open>strings.TrimSpace\<close>: the string without its leading and trailing white space.\<close>

definition TrimSpace :: "gostring \<Rightarrow> gostring" where
  "TrimSpace s = rev (dropWhile unicode_IsSpace (rev (dropWhile unicode_IsSpace s)))"

text \<open>\<^verbatim>\<open>strings.Join(parts, sep)\<close>.\<close>

fun Join :: "gostring list \<Rightarrow> gostring \<Rightarrow> gostring" where
  "Join [] sep = []"
| "Join [p] sep = p"
| "Join (p # q # ps) sep = p @ sep @ Join (q # ps) sep"

section \<open>The goldmark syntax tree\<close>

text \<open>
  The generic block and inline tree that the goldmark parser hands to the transformers.
  Each constructor is one node kind with the attributes the Go code reads: the segment
  value of a \<^verbatim>\<open>Text\<close>, the level of an \<^verbatim>\<open>Emphasis\<close> or \<^verbatim>\<open>Heading\<close>, the
  destination of a \<^verbatim>\<open>Link\<close> or \<^verbatim>\<open>Image\<close>, the segments of a \<^verbatim>\<open>RawHTML\<close>, the lines of
  a \<^verbatim>\<open>CodeBlock\<close> or \<^verbatim>\<open>FencedCodeBlock\<close>; then the child nodes. \<open>Other\<close> stands for
  every kind the Go code does not name.
\<close>

datatype node =
    Text gostring
  | Emphasis nat "node list"
  | Link gostring "node list"
  | Image gostring "node list"
  | RawHTML gostring
  | CodeBlock gostring
  | Heading nat "node list"
  | Paragraph "node list"
  | TextBlock "node list"
  | List "node list"
  | ListItem "node list"
  | ThematicBreak
  | Other "node list"

fun child_nodes :: "node \<Rightarrow> node list" where
  "child_nodes (Text s) = []"
| "child_nodes (Emphasis l cs) = cs"
| "child_nodes (Link d cs) = cs"
| "child_nodes (Image d cs) = cs"
| "child_nodes (RawHTML s) = []"
| "child_nodes (CodeBlock s) = []"
| "child_nodes (Heading l cs) = cs"
| "child_nodes (Paragraph cs) = cs"
| "child_nodes (TextBlock cs) = cs"
| "child_nodes (List cs) = cs"
| "child_nodes (ListItem cs) = cs"
| "child_nodes ThematicBreak = []"
| "child_nodes (Other cs) = cs"

section \<open>Package extension: the single-pass recipe parser\<close>

subsection \<open>Text extraction\<close>

text \<open>
  \<^verbatim>\<open>extractText\<close> walks the children of a node: a \<^verbatim>\<open>Text\<close> child contributes its
  segment, any other child with children contributes its own extracted text.
\<close>

fun extractText :: "node \<Rightarrow> gostring" and extractText_from :: "node list \<Rightarrow> gostring" where
  "extractText (Text s) = []"
| "extractText (Emphasis l cs) = extractText_from cs"
| "extractText (Link d cs) = extractText_from cs"
| "extractText (Image d cs) = extractText_from cs"
| "extractText (RawHTML s) = []"
| "extractText (CodeBlock s) = []"
| "extractText (Heading l cs) = extractText_from cs"
| "extractText (Paragraph cs) = extractText_from cs"
| "extractText (TextBlock cs) = extractText_from cs"
| "extractText (List cs) = extractText_from cs"
| "extractText (ListItem cs) = extractText_from cs"
| "extractText ThematicBreak = []"
| "extractText (Other cs) = extractText_from cs"
| "extractText_from [] = []"
| "extractText_from (c # cs) =
     (case c of Text s \<Rightarrow> s | _ \<Rightarrow> extractText c) @ extractText_from cs"

text \<open>\<^verbatim>\<open>renderNode\<close>: a node rendered back to markdown-like text.\<close>

fun renderNode :: "node \<Rightarrow> gostring" and renderNode_from :: "node list \<Rightarrow> gostring" where
  "renderNode (Heading l cs) = extractText (Heading l cs)"
| "renderNode (Paragraph cs) = extractText (Paragraph cs)"
| "renderNode (Text s) = s"
| "renderNode (CodeBlock s) = s"
| "renderNode (Image d cs) = ustr ''!['' @ renderNode_from cs @ ustr '']('' @ d @ ustr '')''"
| "renderNode (RawHTML s) = s"
| "renderNode (Emphasis l cs) = renderNode_from cs"
| "renderNode (Link d cs) = renderNode_from cs"
| "renderNode (TextBlock cs) = renderNode_from cs"
| "renderNode (List cs) = renderNode_from cs"
| "renderNode (ListItem cs) = renderNode_from cs"
| "renderNode ThematicBreak = []"
| "renderNode (Other cs) = renderNode_from cs"
| "renderNode_from [] = []"
| "renderNode_from (c # cs) = renderNode c @ renderNode_from cs"

text \<open>
  \<^verbatim>\<open>isFullyItalic\<close> and \<^verbatim>\<open>isFullyBold\<close>: the paragraph has children, its first child is
  an emphasis of level 1 (respectively 2), and that child has no next sibling.
\<close>

definition isFullyItalic :: "node \<Rightarrow> bool" where
  "isFullyItalic para = (case child_nodes para of [Emphasis l cs] \<Rightarrow> l = 1 | _ \<Rightarrow> False)"

definition isFullyBold :: "node \<Rightarrow> bool" where
  "isFullyBold para = (case child_nodes para of [Emphasis l cs] \<Rightarrow> l = 2 | _ \<Rightarrow> False)"

subsection \<open>Comma splitting\<close>

text \<open>
  \<^verbatim>\<open>splitTags\<close>. The loop runs over the index \<open>i\<close> of the rune slice with the builder
  \<open>current\<close> and the result \<open>tags\<close>; \<open>flush\<close> is the trimmed run appended when it
  is not empty (the code of both the separator branch and the last tag).
\<close>

definition flush :: "gostring list \<Rightarrow> gostring \<Rightarrow> gostring list" where
  "flush tags current = (let tag = TrimSpace current in if tag \<noteq> [] then tags @ [tag] else tags)"

function splitTags_loop :: "rune list \<Rightarrow> nat \<Rightarrow> gostring \<Rightarrow> gostring list \<Rightarrow> gostring list" where
  "splitTags_loop runes i current tags =
     (if i < length runes then
        (if runes ! i = 44 then
           (let before = (i > 0 \<and> unicode_IsDigit (runes ! (i - 1)));
                after = (i < length runes - 1 \<and> unicode_IsDigit (runes ! (i + 1)))
            in if before \<and> after
               then splitTags_loop runes (i + 1) (current @ [runes ! i]) tags
               else splitTags_loop runes (i + 1) [] (flush tags current))
         else splitTags_loop runes (i + 1) (current @ [runes ! i]) tags)
      else flush tags current)"
  by pat_completeness auto
termination
  by (relation "measure (\<lambda>(runes, i, current, tags). length runes - i)") auto

declare splitTags_loop.simps [simp del]

definition splitTags :: "gostring \<Rightarrow> gostring list" where
  "splitTags text = splitTags_loop text 0 [] []"

subsection \<open>Amounts and yields\<close>

text \<open>
  \<^verbatim>\<open>parseAmount\<close> matches the regular expression \<^verbatim>\<open>^([\d.,/\s]+)\<close> against the trimmed
  text. In Go's syntax \<^verbatim>\<open>\d\<close> is \<^verbatim>\<open>[0-9]\<close> and \<^verbatim>\<open>\s\<close> is tab, line feed, form feed,
  carriage return and space; the match is the longest prefix of such characters and
  exists when that prefix is not empty. The factor is a string; the unit is a pointer
  that stays nil when nothing follows the number.
\<close>

definition ascii_digit :: "rune \<Rightarrow> bool" where
  "ascii_digit r = (48 \<le> r \<and> r \<le> 57)"

definition regexp_space :: "rune \<Rightarrow> bool" where
  "regexp_space r = (r = 9 \<or> r = 10 \<or> r = 12 \<or> r = 13 \<or> r = 32)"

definition in_number_class :: "rune \<Rightarrow> bool" where
  "in_number_class r = (ascii_digit r \<or> r = 46 \<or> r = 44 \<or> r = 47 \<or> regexp_space r)"

definition parseAmount :: "gostring \<Rightarrow> gostring \<times> gostring option" where
  "parseAmount text0 =
     (let text = TrimSpace text0;
          m = takeWhile in_number_class text
      in if m \<noteq> [] then
           (let factor = TrimSpace m;
                remainder = TrimSpace (drop (length m) text)
            in (factor, if remainder \<noteq> [] then Some remainder else None))
         else (text, None))"

datatype yield = Yield (yield_Factor: gostring) (yield_Unit: "gostring option")

datatype amount = Amount (Factor: gostring) (Unit: "gostring option")

definition parseYields :: "gostring \<Rightarrow> yield list" where
  "parseYields text =
     map (\<lambda>part. case parseAmount (TrimSpace part) of (factor, unit) \<Rightarrow> Yield factor unit)
       (splitTags text)"

subsection \<open>Ingredient lines\<close>

datatype ingredient =
  Ingredient (Name: gostring) (Link_of: "gostring option") (Amount_of: "amount option")

text \<open>
  The name loop of \<^verbatim>\<open>parseIngredient\<close> over the remaining siblings, with its variables
  \<open>name\<close>, \<open>nameParts\<close> and \<open>link\<close>.
\<close>

fun collect_name ::
  "node list \<Rightarrow> gostring \<Rightarrow> gostring list \<Rightarrow> gostring option
     \<Rightarrow> gostring \<times> gostring list \<times> gostring option" where
  "collect_name [] name nameParts link = (name, nameParts, link)"
| "collect_name (c # cs) name nameParts link =
     (case c of
        Link dest lcs \<Rightarrow>
          (let linkText = extractText c
           in if name = [] then collect_name cs linkText nameParts (Some dest)
              else collect_name cs name (nameParts @ [linkText]) (Some dest))
      | Text text \<Rightarrow> collect_name cs name (nameParts @ [text]) link
      | _ \<Rightarrow>
          (let text = extractText c
           in if text \<noteq> [] then collect_name cs name (nameParts @ [text]) link
              else collect_name cs name nameParts link))"

text \<open>
  \<^verbatim>\<open>parseIngredient\<close>: the inline nodes are those of the item's first child when that
  is a paragraph or a text block, and the item's own children otherwise; a leading
  emphasis of level 1 is the amount; nil (here \<open>None\<close>) is returned when the name is
  empty, and the name is trimmed after that test.
\<close>

definition inline_nodes :: "node \<Rightarrow> node list" where
  "inline_nodes item =
     (case child_nodes item of
        Paragraph cs # rest \<Rightarrow> cs
      | TextBlock cs # rest \<Rightarrow> cs
      | other \<Rightarrow> other)"

definition leading_amount :: "node list \<Rightarrow> amount option \<times> node list" where
  "leading_amount cs =
     (case cs of
        Emphasis l ecs # rest \<Rightarrow>
          if l = 1
          then (case parseAmount (extractText (Emphasis l ecs)) of
                  (factor, unit) \<Rightarrow> (Some (Amount factor unit), rest))
          else (None, cs)
      | other \<Rightarrow> (None, other))"

definition parseIngredient :: "node \<Rightarrow> ingredient option" where
  "parseIngredient item =
     (case leading_amount (inline_nodes item) of
        (amount, rest) \<Rightarrow>
          (case collect_name rest [] [] None of
             (name0, nameParts, link) \<Rightarrow>
               (let name = (if name0 = [] \<and> nameParts \<noteq> [] then Join nameParts [] else name0)
                in if name = [] then None
                   else Some (Ingredient (TrimSpace name) link amount))))"

text \<open>\<^verbatim>\<open>parseIngredients\<close>: the non-nil ingredients of the list's items, in order.\<close>

fun parseIngredients_from :: "node list \<Rightarrow> ingredient list" where
  "parseIngredients_from [] = []"
| "parseIngredients_from (c # cs) =
     (case c of
        ListItem ics \<Rightarrow>
          (case parseIngredient c of
             Some ingredient \<Rightarrow> ingredient # parseIngredients_from cs
           | None \<Rightarrow> parseIngredients_from cs)
      | _ \<Rightarrow> parseIngredients_from cs)"

definition parseIngredients :: "node \<Rightarrow> ingredient list" where
  "parseIngredients list = parseIngredients_from (child_nodes list)"

subsection \<open>Ingredient groups\<close>

text \<open>
  Ingredient groups are Go objects shared between the stack of open groups, the list
  of top-level groups and their parents' child lists, and they are extended after they
  have been linked. They are modelled as cells of a store, a group being named by
  its index there; a new group takes the next free index.
\<close>

datatype group_child = ChildIngredient ingredient | ChildGroup nat

record IngredientGroup =
  Title :: gostring
  Level :: nat
  Children :: "group_child list"

definition AppendChild :: "IngredientGroup \<Rightarrow> group_child \<Rightarrow> IngredientGroup" where
  "AppendChild g c = g\<lparr>Children := Children g @ [c]\<rparr>"

text \<open>
  The loop of \<^verbatim>\<open>addIngredientGroup\<close>: the top of the stack is its last element; the
  result is the store, the stack and the list of top-level groups.
\<close>

function addIngredientGroup_loop ::
  "IngredientGroup list \<Rightarrow> nat list \<Rightarrow> nat list \<Rightarrow> nat
     \<Rightarrow> IngredientGroup list \<times> nat list \<times> nat list" where
  "addIngredientGroup_loop store stack topLevel grp =
     (if stack \<noteq> [] then
        (let parent = last stack
         in if Level (store ! grp) > Level (store ! parent)
            then (store[parent := AppendChild (store ! parent) (ChildGroup grp)],
                  stack @ [grp], topLevel)
            else addIngredientGroup_loop store (butlast stack) topLevel grp)
      else (store, [grp], topLevel @ [grp]))"
  by pat_completeness auto
termination
  by (relation "measure (\<lambda>(store, stack, topLevel, grp). length stack)") auto

declare addIngredientGroup_loop.simps [simp del]

subsection \<open>The transformer\<close>

text \<open>The local variables of \<^verbatim>\<open>recipeParser.Transform\<close>, and the store of groups.\<close>

record parser_state =
  title :: gostring
  descriptionParts :: "gostring list"
  tagsNode :: "gostring list option"
  yieldsNode :: "yield list option"
  firstDividerFound :: bool
  secondDividerFound :: bool
  currentIngredientList :: "ingredient list option"
  ingredientGroupStack :: "nat list"
  topLevelGroups :: "nat list"
  instructionParts :: "gostring list"
  groupStore :: "IngredientGroup list"

definition initial_state :: parser_state where
  "initial_state =
     \<lparr>title = [], descriptionParts = [], tagsNode = None, yieldsNode = None,
      firstDividerFound = False, secondDividerFound = False,
      currentIngredientList = None, ingredientGroupStack = [], topLevelGroups = [],
      instructionParts = [], groupStore = []\<rparr>"

text \<open>
  \<^verbatim>\<open>addIngredientGroup\<close>, called with the group just created by
  \<^verbatim>\<open>NewIngredientGroup(groupTitle, n.Level)\<close>: the current ingredient list is reset to nil,
  then the loop finds the parent.
\<close>

definition addIngredientGroup :: "parser_state \<Rightarrow> gostring \<Rightarrow> nat \<Rightarrow> parser_state" where
  "addIngredientGroup st groupTitle level =
     (let grp = length (groupStore st);
          store = groupStore st @ [\<lparr>Title = groupTitle, Level = level, Children = []\<rparr>]
      in case addIngredientGroup_loop store (ingredientGroupStack st) (topLevelGroups st) grp of
           (store', stack', topLevel') \<Rightarrow>
             st\<lparr>currentIngredientList := None, ingredientGroupStack := stack',
                topLevelGroups := topLevel', groupStore := store'\<rparr>)"

definition add_instruction :: "parser_state \<Rightarrow> node \<Rightarrow> parser_state" where
  "add_instruction st n = st\<lparr>instructionParts := instructionParts st @ [renderNode n]\<rparr>"

definition add_description :: "parser_state \<Rightarrow> node \<Rightarrow> parser_state" where
  "add_description st n = st\<lparr>descriptionParts := descriptionParts st @ [renderNode n]\<rparr>"

text \<open>The body of the loop over the document's children: one case per node type.\<close>

definition step :: "parser_state \<Rightarrow> node \<Rightarrow> parser_state" where
  "step st child =
     (case child of
        Heading level cs \<Rightarrow>
          if level = 1 \<and> title st = [] then st\<lparr>title := extractText child\<rparr>
          else if firstDividerFound st \<and> \<not> secondDividerFound st
          then addIngredientGroup st (extractText child) level
          else if secondDividerFound st then add_instruction st child
          else st
      | Paragraph cs \<Rightarrow>
          if title st = [] then st
          else if \<not> firstDividerFound st then
            (if isFullyItalic child
             then st\<lparr>tagsNode := Some (splitTags (extractText child))\<rparr>
             else if isFullyBold child
             then st\<lparr>yieldsNode := Some (parseYields (extractText child))\<rparr>
             else add_description st child)
          else if secondDividerFound st then add_instruction st child
          else st
      | List cs \<Rightarrow>
          if firstDividerFound st \<and> \<not> secondDividerFound st then
            (let ingredients = parseIngredients child
             in if ingredientGroupStack st \<noteq> [] then
                  (let currentGroup = last (ingredientGroupStack st)
                   in st\<lparr>groupStore := (groupStore st)
                        [currentGroup := foldl AppendChild (groupStore st ! currentGroup)
                                           (map ChildIngredient ingredients)]\<rparr>)
                else st\<lparr>currentIngredientList :=
                          Some ((case currentIngredientList st of None \<Rightarrow> [] | Some l \<Rightarrow> l)
                                @ ingredients)\<rparr>)
          else if secondDividerFound st then add_instruction st child
          else st
      | ThematicBreak \<Rightarrow>
          if \<not> firstDividerFound st then st\<lparr>firstDividerFound := True\<rparr>
          else if \<not> secondDividerFound st then st\<lparr>secondDividerFound := True\<rparr>
          else st
      | _ \<Rightarrow>
          if secondDividerFound st then add_instruction st child
          else if \<not> firstDividerFound st \<and> title st \<noteq> [] then add_description st child
          else st)"

text \<open>
  The Recipe node that \<^verbatim>\<open>Transform\<close> builds after the loop: the metadata node with its
  optional tags and yields children, the list of ungrouped ingredients when it is
  not nil and has children, the top-level groups (indices into the store), and the
  instructions when there are any.
\<close>

record Recipe =
  metadata_Title :: gostring
  metadata_Description :: gostring
  RecipeTags :: "gostring list option"
  RecipeYields :: "yield list option"
  IngredientList :: "ingredient list option"
  IngredientGroups :: "nat list"
  GroupStore :: "IngredientGroup list"
  Instructions :: "gostring option"

definition build_recipe :: "parser_state \<Rightarrow> Recipe" where
  "build_recipe st =
     \<lparr>metadata_Title = title st,
      metadata_Description = TrimSpace (Join (descriptionParts st) [10, 10]),
      RecipeTags = tagsNode st,
      RecipeYields = yieldsNode st,
      IngredientList =
        (case currentIngredientList st of
           None \<Rightarrow> None
         | Some l \<Rightarrow> if l \<noteq> [] then Some l else None),
      IngredientGroups = topLevelGroups st,
      GroupStore = groupStore st,
      Instructions =
        (if instructionParts st \<noteq> []
         then Some (TrimSpace (Join (instructionParts st) [10, 10])) else None)\<rparr>"

definition recipeParser_Transform :: "node list \<Rightarrow> Recipe" where
  "recipeParser_Transform doc = build_recipe (foldl step initial_state doc)"

section \<open>Package parser: the slicing transformer\<close>

text \<open>
  \<^verbatim>\<open>recipeTransformer\<close> cuts the document's children at the first two thematic breaks
  and hands each slice to its own function. Its \<^verbatim>\<open>extractText\<close> returns the segment of a
  \<^verbatim>\<open>Text\<close> node and otherwise the concatenated text of the children.
\<close>

fun parser_extractText :: "node \<Rightarrow> gostring"
  and parser_extractText_from :: "node list \<Rightarrow> gostring" where
  "parser_extractText (Text s) = s"
| "parser_extractText (Emphasis l cs) = parser_extractText_from cs"
| "parser_extractText (Link d cs) = parser_extractText_from cs"
| "parser_extractText (Image d cs) = parser_extractText_from cs"
| "parser_extractText (RawHTML s) = []"
| "parser_extractText (CodeBlock s) = []"
| "parser_extractText (Heading l cs) = parser_extractText_from cs"
| "parser_extractText (Paragraph cs) = parser_extractText_from cs"
| "parser_extractText (TextBlock cs) = parser_extractText_from cs"
| "parser_extractText (List cs) = parser_extractText_from cs"
| "parser_extractText (ListItem cs) = parser_extractText_from cs"
| "parser_extractText ThematicBreak = []"
| "parser_extractText (Other cs) = parser_extractText_from cs"
| "parser_extractText_from [] = []"
| "parser_extractText_from (c # cs) = parser_extractText c @ parser_extractText_from cs"

definition isAllEmphasis :: "node \<Rightarrow> bool" where
  "isAllEmphasis p = (case child_nodes p of [Emphasis l cs] \<Rightarrow> l = 1 | _ \<Rightarrow> False)"

definition isAllStrong :: "node \<Rightarrow> bool" where
  "isAllStrong p = (case child_nodes p of [Emphasis l cs] \<Rightarrow> l = 2 | _ \<Rightarrow> False)"

text \<open>
  The nodes of package ast that the transformer creates. An \<^verbatim>\<open>Ingredient\<close> holds two
  strings; an \<^verbatim>\<open>IngredientGroup\<close> holds its name, and its children are the heading it
  was made from followed by its ingredients.
\<close>

datatype ast_Ingredient = ast_Ingredient (ast_Amount: gostring) (ast_Name: gostring)

datatype group_member = GroupHeading node | GroupIngredient ast_Ingredient

datatype ingredients_child =
    IngredientChild ast_Ingredient
  | IngredientGroupChild gostring "group_member list"

datatype recipe_child =
    TitleNode node
  | DescriptionNode "node list"
  | TagsNode node
  | YieldsNode node
  | IngredientsNode "ingredients_child list"
  | InstructionsNode "node list"

text \<open>
  \<^verbatim>\<open>processMetadata\<close>: the recipe's children so far and the position of the description
  node among them (the variable \<open>description\<close>, nil until the first description
  paragraph).
\<close>

fun processMetadata_loop ::
  "recipe_child list \<Rightarrow> nat option \<Rightarrow> node list \<Rightarrow> recipe_child list" where
  "processMetadata_loop recipe description [] = recipe"
| "processMetadata_loop recipe description (n # nodes) =
     (case n of
        Heading level cs \<Rightarrow>
          if level = 1 then processMetadata_loop (recipe @ [TitleNode n]) description nodes
          else processMetadata_loop recipe description nodes
      | Paragraph cs \<Rightarrow>
          if isAllEmphasis n then processMetadata_loop (recipe @ [TagsNode n]) description nodes
          else if isAllStrong n then processMetadata_loop (recipe @ [YieldsNode n]) description nodes
          else
            (case description of
               None \<Rightarrow>
                 processMetadata_loop (recipe @ [DescriptionNode [n]]) (Some (length recipe)) nodes
             | Some d \<Rightarrow>
                 processMetadata_loop
                   (recipe[d := (case recipe ! d of
                                   DescriptionNode ps \<Rightarrow> DescriptionNode (ps @ [n])
                                 | other \<Rightarrow> other)])
                   description nodes)
      | _ \<Rightarrow> processMetadata_loop recipe description nodes)"

definition processMetadata :: "node list \<Rightarrow> recipe_child list" where
  "processMetadata nodes = processMetadata_loop [] None nodes"

text \<open>
  \<^verbatim>\<open>parseIngredientContent\<close>: the text container is the item's first child that is a
  text block or a paragraph; without one the ingredient keeps two empty strings.
\<close>

fun content_loop ::
  "node list \<Rightarrow> gostring list \<Rightarrow> gostring list \<Rightarrow> bool \<Rightarrow> gostring list \<times> gostring list" where
  "content_loop [] amountParts nameParts inAmount = (amountParts, nameParts)"
| "content_loop (c # cs) amountParts nameParts inAmount =
     (case c of
        Emphasis l ecs \<Rightarrow>
          if inAmount \<and> l = 1
          then content_loop cs (amountParts @ [parser_extractText c]) nameParts inAmount
          else content_loop cs amountParts (nameParts @ [parser_extractText c]) inAmount
      | Text txt \<Rightarrow> content_loop cs amountParts (nameParts @ [txt]) False
      | _ \<Rightarrow> content_loop cs amountParts (nameParts @ [parser_extractText c]) inAmount)"

definition is_text_container :: "node \<Rightarrow> bool" where
  "is_text_container c = (case c of TextBlock cs \<Rightarrow> True | Paragraph cs \<Rightarrow> True | _ \<Rightarrow> False)"

definition parseIngredientContent :: "node \<Rightarrow> ast_Ingredient" where
  "parseIngredientContent item =
     (case find is_text_container (child_nodes item) of
        None \<Rightarrow> ast_Ingredient [] []
      | Some textContainer \<Rightarrow>
          (case content_loop (child_nodes textContainer) [] [] True of
             (amountParts, nameParts) \<Rightarrow>
               ast_Ingredient (TrimSpace (Join amountParts [32])) (TrimSpace (Join nameParts []))))"

text \<open>\<^verbatim>\<open>processIngredientList\<close>: one ingredient per list item, in order.\<close>

definition processIngredientList :: "node \<Rightarrow> ast_Ingredient list" where
  "processIngredientList list =
     map parseIngredientContent
       (filter (\<lambda>item. case item of ListItem cs \<Rightarrow> True | _ \<Rightarrow> False) (child_nodes list))"

text \<open>
  \<^verbatim>\<open>processIngredients\<close>: the children of the Ingredients node and the position of the
  current group among them (\<open>currentGroup\<close>, nil before the first heading). Every
  heading starts a new group, appended to the Ingredients node itself.
\<close>

fun processIngredients_loop ::
  "ingredients_child list \<Rightarrow> nat option \<Rightarrow> node list \<Rightarrow> ingredients_child list" where
  "processIngredients_loop ingredients currentGroup [] = ingredients"
| "processIngredients_loop ingredients currentGroup (n # nodes) =
     (case n of
        Heading level cs \<Rightarrow>
          processIngredients_loop
            (ingredients @ [IngredientGroupChild (parser_extractText n) [GroupHeading n]])
            (Some (length ingredients)) nodes
      | List cs \<Rightarrow>
          (case currentGroup of
             Some g \<Rightarrow>
               processIngredients_loop
                 (ingredients[g := (case ingredients ! g of
                                      IngredientGroupChild name members \<Rightarrow>
                                        IngredientGroupChild name
                                          (members @ map GroupIngredient (processIngredientList n))
                                    | other \<Rightarrow> other)])
                 currentGroup nodes
           | None \<Rightarrow>
               processIngredients_loop
                 (ingredients @ map IngredientChild (processIngredientList n)) currentGroup nodes)
      | _ \<Rightarrow> processIngredients_loop ingredients currentGroup nodes)"

definition processIngredients :: "node list \<Rightarrow> ingredients_child list" where
  "processIngredients nodes = processIngredients_loop [] None nodes"

text \<open>
  The search for the section boundaries: the indices of the first and of the second
  thematic break, each -1 until found; the loop is left at the second break.
\<close>

fun find_breaks :: "node list \<Rightarrow> nat \<Rightarrow> int \<Rightarrow> int \<Rightarrow> int \<times> int" where
  "find_breaks [] i firstBreakIdx secondBreakIdx = (firstBreakIdx, secondBreakIdx)"
| "find_breaks (child # rest) i firstBreakIdx secondBreakIdx =
     (if child = ThematicBreak then
        (if firstBreakIdx = -1 then find_breaks rest (i + 1) (int i) secondBreakIdx
         else if secondBreakIdx = -1 then (firstBreakIdx, int i)
         else find_breaks rest (i + 1) firstBreakIdx secondBreakIdx)
      else find_breaks rest (i + 1) firstBreakIdx secondBreakIdx)"

text \<open>The slice expression \<^verbatim>\<open>xs[lo:hi]\<close>, for bounds within the slice.\<close>

definition go_slice :: "'a list \<Rightarrow> int \<Rightarrow> int \<Rightarrow> 'a list" where
  "go_slice xs lo hi = take (nat (hi - lo)) (drop (nat lo) xs)"

text \<open>
  \<^verbatim>\<open>recipeTransformer.Transform\<close>: the children of the Recipe node that replaces the
  document's children.
\<close>

definition recipeTransformer_Transform :: "node list \<Rightarrow> recipe_child list" where
  "recipeTransformer_Transform children =
     (case find_breaks children 0 (-1) (-1) of
        (firstBreakIdx, secondBreakIdx) \<Rightarrow>
          (let len = int (length children);
               metaEnd = (if firstBreakIdx \<noteq> -1 then firstBreakIdx else len);
               recipe1 = processMetadata (go_slice children 0 metaEnd);
               recipe2 =
                 (if firstBreakIdx \<noteq> -1 then
                    (let ingredientsStart = firstBreakIdx + 1;
                         ingredientsEnd = (if secondBreakIdx \<noteq> -1 then secondBreakIdx else len)
                     in if ingredientsStart < ingredientsEnd
                        then recipe1 @
                          [IngredientsNode
                             (processIngredients (go_slice children ingredientsStart ingredientsEnd))]
                        else recipe1)
                  else recipe1)
           in if secondBreakIdx \<noteq> -1 \<and> secondBreakIdx + 1 < len
              then recipe2 @ [InstructionsNode (go_slice children (secondBreakIdx + 1) len)]
              else recipe2))"

text \<open>
  The three slices that \<^verbatim>\<open>Transform\<close> passes on, each empty when its call is skipped.
\<close>

definition metadata_nodes :: "node list \<Rightarrow> node list" where
  "metadata_nodes children =
     (case find_breaks children 0 (-1) (-1) of
        (firstBreakIdx, secondBreakIdx) \<Rightarrow>
          go_slice children 0
            (if firstBreakIdx \<noteq> -1 then firstBreakIdx else int (length children)))"

definition ingredient_nodes :: "node list \<Rightarrow> node list" where
  "ingredient_nodes children =
     (case find_breaks children 0 (-1) (-1) of
        (firstBreakIdx, secondBreakIdx) \<Rightarrow>
          (let ingredientsStart = firstBreakIdx + 1;
               ingredientsEnd =
                 (if secondBreakIdx \<noteq> -1 then secondBreakIdx else int (length children))
           in if firstBreakIdx \<noteq> -1 \<and> ingredientsStart < ingredientsEnd
              then go_slice children ingredientsStart ingredientsEnd else []))"

definition instruction_nodes :: "node list \<Rightarrow> node list" where
  "instruction_nodes children =
     (case find_breaks children 0 (-1) (-1) of
        (firstBreakIdx, secondBreakIdx) \<Rightarrow>
          (if secondBreakIdx \<noteq> -1 \<and> secondBreakIdx + 1 < int (length children)
           then go_slice children (secondBreakIdx + 1) (int (length children)) else []))"

section \<open>Package recipemd: amounts of the Recipe struct\<close>

text \<open>
  \<^verbatim>\<open>parseAmount\<close> of package recipemd: \<^verbatim>\<open>strings.SplitN(s, " ", 2)\<close> cuts at the first
  space; both fields of the struct are strings.
\<close>

datatype recipemd_Amount = recipemd_Amount (Quantity: gostring) (recipemd_Unit: gostring)

definition recipemd_parseAmount :: "gostring \<Rightarrow> recipemd_Amount" where
  "recipemd_parseAmount s =
     (let parts0 = takeWhile (\<lambda>r. r \<noteq> 32) s
      in if length parts0 = length s then recipemd_Amount s []
         else recipemd_Amount parts0 (drop (Suc (length parts0)) s))"

section \<open>The amount literals and the splitting rule, as the specification words them\<close>

text \<open>
  The six literal forms of an amount: an integer, a decimal with \<open>.\<close> or with \<open>,\<close>,
  a fraction \<open>N/M\<close> with \<open>M\<close> not zero, a mixed number \<open>W N/M\<close> (the white space
  being tabs, line feeds, form feeds, carriage returns or spaces), and one vulgar
  fraction code point (U+00BC..U+00BE, U+2150..U+215E, U+2189).
\<close>

definition is_integer_literal :: "gostring \<Rightarrow> bool" where
  "is_integer_literal s = (s \<noteq> [] \<and> list_all ascii_digit s)"

definition is_decimal_literal :: "rune \<Rightarrow> gostring \<Rightarrow> bool" where
  "is_decimal_literal sep s =
     (let a = takeWhile (\<lambda>r. r \<noteq> sep) s; b = drop (Suc (length a)) s
      in length a < length s \<and> (a = [] \<or> is_integer_literal a) \<and> is_integer_literal b)"

definition is_fraction_literal :: "gostring \<Rightarrow> bool" where
  "is_fraction_literal s =
     (let n = takeWhile (\<lambda>r. r \<noteq> 47) s; m = drop (Suc (length n)) s
      in length n < length s \<and> is_integer_literal n \<and> is_integer_literal m \<and>
         list_ex (\<lambda>r. r \<noteq> 48) m)"

definition is_mixed_literal :: "gostring \<Rightarrow> bool" where
  "is_mixed_literal s =
     (let w = takeWhile (\<lambda>r. \<not> regexp_space r) s;
          f = dropWhile regexp_space (drop (length w) s)
      in length w < length s \<and> is_integer_literal w \<and> is_fraction_literal f)"

definition is_vulgar_fraction :: "rune \<Rightarrow> bool" where
  "is_vulgar_fraction r =
     (r = 0xBC \<or> r = 0xBD \<or> r = 0xBE \<or> (0x2150 \<le> r \<and> r \<le> 0x215E) \<or> r = 0x2189)"

definition is_amount_literal :: "gostring \<Rightarrow> bool" where
  "is_amount_literal s =
     (is_integer_literal s \<or> is_decimal_literal 46 s \<or> is_decimal_literal 44 s \<or>
      is_fraction_literal s \<or> is_mixed_literal s \<or>
      (case s of [r] \<Rightarrow> is_vulgar_fraction r | _ \<Rightarrow> False))"

text \<open>
  The splitting rule: position \<open>i\<close> is a boundary when it holds a comma that does not
  stand between two digits; the runs between the boundaries are trimmed and the empty
  ones discarded.
\<close>

definition is_boundary :: "(rune \<Rightarrow> bool) \<Rightarrow> gostring \<Rightarrow> nat \<Rightarrow> bool" where
  "is_boundary digit runes i =
     (runes ! i = 44 \<and>
      \<not> (0 < i \<and> digit (runes ! (i - 1)) \<and> i + 1 < length runes \<and> digit (runes ! (i + 1))))"

fun runs_between :: "gostring \<Rightarrow> nat list \<Rightarrow> nat \<Rightarrow> gostring list" where
  "runs_between runes [] start = [drop start runes]"
| "runs_between runes (b # bs) start =
     take (b - start) (drop start runes) # runs_between runes bs (Suc b)"

definition comma_split :: "(rune \<Rightarrow> bool) \<Rightarrow> gostring \<Rightarrow> gostring list" where
  "comma_split digit runes =
     filter (\<lambda>t. t \<noteq> [])
       (map TrimSpace
          (runs_between runes (filter (is_boundary digit runes) [0..<length runes]) 0))"

section \<open>Notions used in the statements\<close>

text \<open>A heading of level 1: the only node that can set the title.\<close>

definition is_title_heading :: "node \<Rightarrow> bool" where
  "is_title_heading n = (case n of Heading l cs \<Rightarrow> l = 1 | _ \<Rightarrow> False)"

text \<open>
  The nodes of a metadata slice by what the extension parser does with them once the
  title is set and no divider has been seen: fully italic paragraphs, fully bold
  paragraphs, and the nodes rendered into the description (the other paragraphs and
  every node that is not a heading, a list or a thematic break).
\<close>

definition tags_paragraphs :: "node list \<Rightarrow> node list" where
  "tags_paragraphs ms =
     filter (\<lambda>n. case n of Paragraph cs \<Rightarrow> isFullyItalic n | _ \<Rightarrow> False) ms"

definition yields_paragraphs :: "node list \<Rightarrow> node list" where
  "yields_paragraphs ms =
     filter (\<lambda>n. case n of Paragraph cs \<Rightarrow> \<not> isFullyItalic n \<and> isFullyBold n | _ \<Rightarrow> False) ms"

definition description_nodes :: "node list \<Rightarrow> node list" where
  "description_nodes ms =
     filter (\<lambda>n. case n of
                    Paragraph cs \<Rightarrow> \<not> isFullyItalic n \<and> \<not> isFullyBold n
                  | Heading l cs \<Rightarrow> False
                  | List cs \<Rightarrow> False
                  | ThematicBreak \<Rightarrow> False
                  | _ \<Rightarrow> True) ms"

text \<open>The parser is in the metadata section: the title is set, no divider was seen.\<close>

definition in_metadata :: "parser_state \<Rightarrow> bool" where
  "in_metadata st =
     (title st \<noteq> [] \<and> \<not> firstDividerFound st \<and> \<not> secondDividerFound st)"

text \<open>
  The inline nodes of a list item after its optional leading amount, and the text
  that the name loop of \<^verbatim>\<open>parseIngredient\<close> takes from one of them.
\<close>

definition name_nodes :: "node \<Rightarrow> node list" where
  "name_nodes item = snd (leading_amount (inline_nodes item))"

definition inline_text :: "node \<Rightarrow> gostring" where
  "inline_text n = (case n of Text s \<Rightarrow> s | _ \<Rightarrow> extractText n)"

text \<open>The number of thematic breaks among top-level nodes.\<close>

definition divider_count :: "node list \<Rightarrow> nat" where
  "divider_count ns = length (filter (\<lambda>n. n = ThematicBreak) ns)"

text \<open>
  The nodes before the first thematic break of a sequence, and the nodes after it
  (none when the sequence has no break).
\<close>

definition before_break :: "node list \<Rightarrow> node list" where
  "before_break ns = takeWhile (\<lambda>n. n \<noteq> ThematicBreak) ns"

definition after_break :: "node list \<Rightarrow> node list" where
  "after_break ns = tl (dropWhile (\<lambda>n. n \<noteq> ThematicBreak) ns)"

text \<open>The children of a Recipe node that hold the ingredients or the instructions.\<close>

definition is_section_node :: "recipe_child \<Rightarrow> bool" where
  "is_section_node c =
     (case c of IngredientsNode es \<Rightarrow> True | InstructionsNode ns \<Rightarrow> True | _ \<Rightarrow> False)"

section \<open>Example documents\<close>

text \<open>A tight list item holding plain text only.\<close>

definition plain_item :: "string \<Rightarrow> node" where
  "plain_item s = ListItem [TextBlock [Text (ustr s)]]"

text \<open>
  The list item \<^verbatim>\<open>*2 1/4 cups* all-purpose flour\<close> and the list item
  \<^verbatim>\<open>[pie crust](./pie-crust.md)\<close>, as goldmark parses them.
\<close>

definition flour_item :: node where
  "flour_item =
     ListItem [TextBlock [Emphasis 1 [Text (ustr ''2 1/4 cups'')],
                          Text (ustr '' all-purpose flour'')]]"

definition pie_crust_item :: node where
  "pie_crust_item =
     ListItem [TextBlock [Link (ustr ''./pie-crust.md'') [Text (ustr ''pie crust'')]]]"

text \<open>
  The list item \<^verbatim>\<open>*2 cups* ![](x.png)\<close>: an amount, one space, and an image without
  alternative text.
\<close>

definition blank_name_item :: node where
  "blank_name_item =
     ListItem [TextBlock [Emphasis 1 [Text (ustr ''2 cups'')], Text (ustr '' ''),
                          Image (ustr ''x.png'') []]]"

text \<open>The list item \<^verbatim>\<open>*2 cups*\<close>: an amount and nothing else.\<close>

definition amount_only_item :: node where
  "amount_only_item = ListItem [TextBlock [Emphasis 1 [Text (ustr ''2 cups'')]]]"

text \<open>
  A title, a divider, and the sequence list, h2, list, h3, list, h2, list of the
  repository's test \<^verbatim>\<open>TestRecipeMD_IngredientGroups\<close>, one item per list.
\<close>

definition groups_document :: "node list" where
  "groups_document =
     [Heading 1 [Text (ustr ''Title'')], ThematicBreak,
      List [plain_item ''ingredient 0''],
      Heading 2 [Text (ustr ''Group 1'')], List [plain_item ''ingredient 1''],
      Heading 3 [Text (ustr ''Subgroup 1.1'')], List [plain_item ''ingredient 3''],
      Heading 2 [Text (ustr ''Group 2'')], List [plain_item ''ingredient 7'']]"

text \<open>A title followed by two fully italic paragraphs and two fully bold ones.\<close>

definition two_tags_document :: "node list" where
  "two_tags_document =
     [Heading 1 [Text (ustr ''T'')],
      Paragraph [Emphasis 1 [Text (ustr ''a, b'')]],
      Paragraph [Emphasis 2 [Text (ustr ''4 servings'')]],
      Paragraph [Emphasis 1 [Text (ustr ''c'')]],
      Paragraph [Emphasis 2 [Text (ustr ''1,5 kg'')]]]"

text \<open>A document with three thematic breaks.\<close>

definition three_breaks_document :: "node list" where
  "three_breaks_document =
     [Heading 1 [Text (ustr ''T'')], ThematicBreak, List [plain_item ''salt''], ThematicBreak,
      Paragraph [Text (ustr ''Mix.'')], ThematicBreak, Paragraph [Text (ustr ''Bake.'')]]"

section \<open>Evaluation\<close>

text \<open>The defining equations that the simplifier unfolds on concrete documents.\<close>

lemmas string_eval = ustr_def TrimSpace_def unicode_IsSpace_def

lemmas split_eval = splitTags_def splitTags_loop.simps flush_def unicode_IsDigit_def

lemmas amount_eval = parseAmount_def in_number_class_def ascii_digit_def regexp_space_def

lemmas ingredient_eval =
  parseIngredient_def inline_nodes_def leading_amount_def parseIngredients_def plain_item_def

lemmas transform_eval =
  recipeParser_Transform_def build_recipe_def initial_state_def step_def
  addIngredientGroup_def addIngredientGroup_loop.simps AppendChild_def add_instruction_def add_description_def
  isFullyItalic_def isFullyBold_def

section \<open>The parser state along a document\<close>

lemma addIngredientGroup_fields:
  "title (addIngredientGroup st t l) = title st"
  "descriptionParts (addIngredientGroup st t l) = descriptionParts st"
  "tagsNode (addIngredientGroup st t l) = tagsNode st"
  "yieldsNode (addIngredientGroup st t l) = yieldsNode st"
  "firstDividerFound (addIngredientGroup st t l) = firstDividerFound st"
  "secondDividerFound (addIngredientGroup st t l) = secondDividerFound st"
  "instructionParts (addIngredientGroup st t l) = instructionParts st"
  by (simp_all add: addIngredientGroup_def Let_def split: prod.splits)

lemma step_title:
  "\<not> is_title_heading n \<Longrightarrow> title (step st n) = title st"
  by (cases n)
     (simp_all add: step_def is_title_heading_def addIngredientGroup_fields
        add_instruction_def add_description_def Let_def)

lemma run_title:
  "list_all (\<lambda>n. \<not> is_title_heading n) pre \<Longrightarrow> title (foldl step st pre) = title st"
  by (induction pre arbitrary: st) (simp_all add: step_title)

lemma step_paragraph_before_title:
  "title st = [] \<Longrightarrow> step st (Paragraph cs) = st"
  by (simp add: step_def)

section \<open>Paragraphs before the title\<close>

text \<open>
  C10. A paragraph that stands before the first level-1 heading of the document
  contributes to no field of the recipe: the extension parser builds the same Recipe
  node from the document without that paragraph.
\<close>

theorem C10_paragraph_before_title_discarded:
  "list_all (\<lambda>n. \<not> is_title_heading n) pre \<Longrightarrow>
   recipeParser_Transform (pre @ Paragraph cs # post) = recipeParser_Transform (pre @ post)"
proof -
  assume "list_all (\<lambda>n. \<not> is_title_heading n) pre"
  then have "title (foldl step initial_state pre) = []"
    by (simp add: run_title initial_state_def)
  then show ?thesis
    by (simp add: recipeParser_Transform_def step_paragraph_before_title)
qed

theorem C10_paragraph_before_title_witness:
  "recipeParser_Transform
     ([Heading 2 [Text (ustr ''Intro'')], ThematicBreak] @
      Paragraph [Emphasis 1 [Text (ustr ''early, tags'')]] #
      [Heading 1 [Text (ustr ''T'')], Paragraph [Text (ustr ''d'')]])
   = recipeParser_Transform
     ([Heading 2 [Text (ustr ''Intro'')], ThematicBreak] @
      [Heading 1 [Text (ustr ''T'')], Paragraph [Text (ustr ''d'')]])"
  using C10_paragraph_before_title_discarded
    [of "[Heading 2 [Text (ustr ''Intro'')], ThematicBreak]"
        "[Emphasis 1 [Text (ustr ''early, tags'')]]"
        "[Heading 1 [Text (ustr ''T'')], Paragraph [Text (ustr ''d'')]]"]
  by (simp add: is_title_heading_def)

section \<open>The ingredient group builder\<close>

text \<open>
  The loop of \<^verbatim>\<open>addIngredientGroup\<close> pops the stack while the level of its top is
  greater than or equal to the level of the new group; the new group then becomes a
  child of the remaining top, or a top-level group when nothing remains, and is
  pushed.
\<close>

lemma addIngredientGroup_loop_pops:
  "addIngredientGroup_loop store stack topLevel grp =
     (let open_groups = rev (dropWhile (\<lambda>p. Level (store ! grp) \<le> Level (store ! p)) (rev stack))
      in if open_groups = [] then (store, [grp], topLevel @ [grp])
         else (store[last open_groups :=
                       AppendChild (store ! last open_groups) (ChildGroup grp)],
               open_groups @ [grp], topLevel))"
proof (induction stack rule: rev_induct)
  case Nil
  show ?case by (simp add: addIngredientGroup_loop.simps)
next
  case (snoc p ps)
  show ?case
  proof (cases "Level (store ! p) < Level (store ! grp)")
    case True
    then show ?thesis
      by (simp add: addIngredientGroup_loop.simps [of store "ps @ [p]"] Let_def)
  next
    case False
    then have "addIngredientGroup_loop store (ps @ [p]) topLevel grp =
               addIngredientGroup_loop store ps topLevel grp"
      by (simp add: addIngredientGroup_loop.simps [of store "ps @ [p]"] Let_def)
    with False snoc show ?thesis by (simp add: Let_def)
  qed
qed

text \<open>
  C3. On the sequence list, h2, list, h3, list, h2, list after the first divider the
  builder nests the level-3 group in the first level-2 group and makes the second
  level-2 group its sibling, each with its one ingredient; but the recipe holds no
  list of ungrouped ingredients: \<^verbatim>\<open>addIngredientGroup\<close> sets the current list to nil at
  the first heading, before that list was ever attached to the recipe, so the
  ingredient of the leading list is lost.
\<close>

theorem C3_ungrouped_ingredient_lost:
  "recipeParser_Transform groups_document =
     \<lparr>metadata_Title = ustr ''Title'', metadata_Description = [],
      RecipeTags = None, RecipeYields = None,
      IngredientList = None,
      IngredientGroups = [0, 2],
      GroupStore =
        [\<lparr>Title = ustr ''Group 1'', Level = 2,
          Children = [ChildIngredient (Ingredient (ustr ''ingredient 1'') None None),
                      ChildGroup 1]\<rparr>,
         \<lparr>Title = ustr ''Subgroup 1.1'', Level = 3,
          Children = [ChildIngredient (Ingredient (ustr ''ingredient 3'') None None)]\<rparr>,
         \<lparr>Title = ustr ''Group 2'', Level = 2,
          Children = [ChildIngredient (Ingredient (ustr ''ingredient 7'') None None)]\<rparr>],
      Instructions = None\<rparr>"
  by (simp add: groups_document_def transform_eval ingredient_eval string_eval)

section \<open>The ingredient line parser\<close>

text \<open>
  C7, as the specification states it, fails: the amount of
  \<^verbatim>\<open>*2 1/4 cups* all-purpose flour\<close> has the two string fields Factor and Unit only.
  Its factor is the text \<open>2 1/4\<close> of the literal, not the number 2.25 (nor its
  numeral), and no field keeps the original text \<open>2 1/4 cups\<close>.
\<close>

theorem C7_factor_is_literal_text:
  "map_option Amount_of (parseIngredient flour_item)
     = Some (Some (Amount (ustr ''2 1/4'') (Some (ustr ''cups'')))) \<and>
   map_option Amount_of (parseIngredient flour_item)
     \<noteq> Some (Some (Amount (ustr ''2.25'') (Some (ustr ''cups''))))"
  by (simp add: flour_item_def ingredient_eval amount_eval string_eval)

text \<open>
  C7, amended. \<^verbatim>\<open>*2 1/4 cups* all-purpose flour\<close> becomes the ingredient named
  \<open>all-purpose flour\<close> without link whose amount has the factor text \<open>2 1/4\<close> and
  the unit \<open>cups\<close>; \<^verbatim>\<open>[pie crust](./pie-crust.md)\<close> becomes the ingredient named
  \<open>pie crust\<close> with the link \<open>./pie-crust.md\<close> and no amount.
\<close>

theorem C7_ingredient_lines:
  "parseIngredient flour_item =
     Some (Ingredient (ustr ''all-purpose flour'') None
             (Some (Amount (ustr ''2 1/4'') (Some (ustr ''cups''))))) \<and>
   parseIngredient pie_crust_item =
     Some (Ingredient (ustr ''pie crust'') (Some (ustr ''./pie-crust.md'')) None)"
  by (simp add: flour_item_def pie_crust_item_def ingredient_eval amount_eval string_eval)

section \<open>The metadata section\<close>

lemma step_in_metadata:
  assumes "in_metadata st" and "n \<noteq> ThematicBreak"
  shows "step st n =
     st\<lparr>descriptionParts := descriptionParts st @ map renderNode (description_nodes [n]),
        tagsNode := (if tags_paragraphs [n] = [] then tagsNode st
                     else Some (splitTags (extractText n))),
        yieldsNode := (if yields_paragraphs [n] = [] then yieldsNode st
                       else Some (parseYields (extractText n)))\<rparr>"
  using assms
  by (cases n)
     (simp_all add: step_def in_metadata_def tags_paragraphs_def yields_paragraphs_def
        description_nodes_def add_description_def)

lemma run_in_metadata:
  assumes "in_metadata st" and "ThematicBreak \<notin> set ms"
  shows "foldl step st ms =
     st\<lparr>descriptionParts := descriptionParts st @ map renderNode (description_nodes ms),
        tagsNode := (if tags_paragraphs ms = [] then tagsNode st
                     else Some (splitTags (extractText (last (tags_paragraphs ms))))),
        yieldsNode := (if yields_paragraphs ms = [] then yieldsNode st
                       else Some (parseYields (extractText (last (yields_paragraphs ms)))))\<rparr>"
  using assms
proof (induction ms arbitrary: st)
  case Nil
  show ?case by (simp add: tags_paragraphs_def yields_paragraphs_def description_nodes_def)
next
  case (Cons n ms)
  from Cons.prems have n: "n \<noteq> ThematicBreak" and ms: "ThematicBreak \<notin> set ms" by auto
  note s = step_in_metadata [OF Cons.prems(1) n]
  have m: "in_metadata (step st n)"
    using Cons.prems(1) by (subst s) (simp add: in_metadata_def)
  have "foldl step st (n # ms) = foldl step (step st n) ms" by simp
  also note Cons.IH [OF m ms]
  finally show ?case
    by (simp add: s tags_paragraphs_def yields_paragraphs_def description_nodes_def)
qed


lemma step_after_first_divider:
  assumes "firstDividerFound st"
  shows "descriptionParts (step st n) = descriptionParts st \<and>
         tagsNode (step st n) = tagsNode st \<and> yieldsNode (step st n) = yieldsNode st \<and>
         firstDividerFound (step st n)"
  using assms
  by (cases n)
     (simp_all add: step_def addIngredientGroup_fields add_instruction_def
        add_description_def Let_def)

lemma run_after_first_divider:
  assumes "firstDividerFound st"
  shows "descriptionParts (foldl step st ns) = descriptionParts st \<and>
         tagsNode (foldl step st ns) = tagsNode st \<and>
         yieldsNode (foldl step st ns) = yieldsNode st"
  using assms
proof (induction ns arbitrary: st)
  case Nil
  show ?case by simp
next
  case (Cons n ns)
  from step_after_first_divider [OF Cons.prems, of n] Cons.IH [of "step st n"]
  show ?case by simp
qed

lemma run_metadata_section:
  assumes "in_metadata st" and "ThematicBreak \<notin> set ms"
    and "tail = [] \<or> hd tail = ThematicBreak"
  shows "descriptionParts (foldl step st (ms @ tail)) =
           descriptionParts st @ map renderNode (description_nodes ms) \<and>
         tagsNode (foldl step st (ms @ tail)) =
           (if tags_paragraphs ms = [] then tagsNode st
            else Some (splitTags (extractText (last (tags_paragraphs ms))))) \<and>
         yieldsNode (foldl step st (ms @ tail)) =
           (if yields_paragraphs ms = [] then yieldsNode st
            else Some (parseYields (extractText (last (yields_paragraphs ms)))))"
proof (cases tail)
  case Nil
  then show ?thesis by (simp add: run_in_metadata [OF assms(1,2)])
next
  case (Cons b rest)
  with assms(3) have tail: "tail = ThematicBreak # rest" by simp
  let ?st = "foldl step st ms"
  have meta: "in_metadata ?st"
    using assms(1) by (subst run_in_metadata [OF assms(1,2)]) (simp add: in_metadata_def)
  then have "firstDividerFound (step ?st ThematicBreak)"
    by (simp add: step_def in_metadata_def)
  from run_after_first_divider [OF this, of rest]
  have "descriptionParts (foldl step st (ms @ tail)) = descriptionParts ?st \<and>
        tagsNode (foldl step st (ms @ tail)) = tagsNode ?st \<and>
        yieldsNode (foldl step st (ms @ tail)) = yieldsNode ?st"
    using meta by (simp add: tail step_def in_metadata_def)
  then show ?thesis by (simp add: run_in_metadata [OF assms(1,2)])
qed

text \<open>
  C5, amended. In a document that starts with a title heading, the tags are those of
  the last fully italic paragraph of the metadata slice and the yields those of the
  last fully bold one (each such paragraph replaces what an earlier one had set); the
  description is made of the remaining nodes only, so no tags or yields paragraph is
  folded into it.
\<close>

theorem C5_last_match_wins:
  assumes "extractText (Heading 1 hs) \<noteq> []" and "ThematicBreak \<notin> set ms"
    and "tail = [] \<or> hd tail = ThematicBreak"
  shows "RecipeTags (recipeParser_Transform (Heading 1 hs # ms @ tail)) =
           (if tags_paragraphs ms = [] then None
            else Some (splitTags (extractText (last (tags_paragraphs ms))))) \<and>
         RecipeYields (recipeParser_Transform (Heading 1 hs # ms @ tail)) =
           (if yields_paragraphs ms = [] then None
            else Some (parseYields (extractText (last (yields_paragraphs ms))))) \<and>
         metadata_Description (recipeParser_Transform (Heading 1 hs # ms @ tail)) =
           TrimSpace (Join (map renderNode (description_nodes ms)) [10, 10])"
proof -
  define st where "st = step initial_state (Heading 1 hs)"
  have fields: "descriptionParts st = []" "tagsNode st = None" "yieldsNode st = None"
    "title st = extractText (Heading 1 hs)" "\<not> firstDividerFound st"
    "\<not> secondDividerFound st"
    by (simp_all add: st_def step_def initial_state_def)
  have meta: "in_metadata st"
    using assms(1) fields by (simp add: in_metadata_def)
  have run: "foldl step initial_state (Heading 1 hs # ms @ tail) = foldl step st (ms @ tail)"
    by (simp add: st_def)
  from run_metadata_section [OF meta assms(2,3)]
  show ?thesis
    unfolding recipeParser_Transform_def run
    by (simp add: build_recipe_def fields)
qed

theorem C5_last_match_wins_witness:
  "RecipeTags (recipeParser_Transform two_tags_document) = Some [ustr ''c''] \<and>
   RecipeYields (recipeParser_Transform two_tags_document) =
     Some [Yield (ustr ''1,5'') (Some (ustr ''kg''))] \<and>
   metadata_Description (recipeParser_Transform two_tags_document) = []"
  using C5_last_match_wins
    [of "[Text (ustr ''T'')]"
        "[Paragraph [Emphasis 1 [Text (ustr ''a, b'')]],
          Paragraph [Emphasis 2 [Text (ustr ''4 servings'')]],
          Paragraph [Emphasis 1 [Text (ustr ''c'')]],
          Paragraph [Emphasis 2 [Text (ustr ''1,5 kg'')]]]" "[]"]
  by (simp add: two_tags_document_def tags_paragraphs_def yields_paragraphs_def
        description_nodes_def isFullyItalic_def isFullyBold_def parseYields_def
        split_eval amount_eval string_eval)

text \<open>
  C5, as the specification states it, fails on a title followed by the paragraphs
  \<^verbatim>\<open>*a, b*\<close>, \<^verbatim>\<open>**4 servings**\<close>, \<^verbatim>\<open>*c*\<close>, \<^verbatim>\<open>**1,5 kg**\<close>: the tags are those of the
  second italic paragraph, the yields those of the second bold one, the description
  stays empty, and the Recipe is the one built from the document without the two
  earlier paragraphs, so nothing records them.
\<close>

theorem C5_first_match_does_not_win:
  "RecipeTags (recipeParser_Transform two_tags_document) = Some [ustr ''c''] \<and>
   RecipeTags (recipeParser_Transform two_tags_document) \<noteq> Some [ustr ''a'', ustr ''b''] \<and>
   RecipeYields (recipeParser_Transform two_tags_document) =
     Some [Yield (ustr ''1,5'') (Some (ustr ''kg''))] \<and>
   metadata_Description (recipeParser_Transform two_tags_document) = [] \<and>
   recipeParser_Transform two_tags_document =
     recipeParser_Transform
       [Heading 1 [Text (ustr ''T'')],
        Paragraph [Emphasis 1 [Text (ustr ''c'')]],
        Paragraph [Emphasis 2 [Text (ustr ''1,5 kg'')]]]"
  by (simp add: two_tags_document_def transform_eval parseYields_def
        split_eval amount_eval string_eval)

section \<open>Dropped list items\<close>

lemma Join_empties:
  "list_all (\<lambda>p. p = []) ps \<Longrightarrow> Join ps [] = []"
  by (induction ps "[] :: gostring" rule: Join.induct) simp_all

lemma collect_name_empty:
  assumes "list_all (\<lambda>n. inline_text n = []) cs" and "list_all (\<lambda>p. p = []) nameParts"
  shows "\<exists>parts link'. collect_name cs [] nameParts link = ([], parts, link') \<and>
           list_all (\<lambda>p. p = []) parts"
  using assms
proof (induction cs arbitrary: nameParts link)
  case Nil
  then show ?case by simp
next
  case (Cons c cs)
  then show ?case
    by (cases c) (simp_all add: inline_text_def Let_def)
qed

lemma parseIngredient_empty_name:
  assumes "list_all (\<lambda>n. inline_text n = []) (name_nodes item)"
  shows "parseIngredient item = None"
proof -
  obtain amount rest where la: "leading_amount (inline_nodes item) = (amount, rest)"
    by (cases "leading_amount (inline_nodes item)")
  with assms have "list_all (\<lambda>n. inline_text n = []) rest"
    by (simp add: name_nodes_def)
  from collect_name_empty [OF this, of "[]" None]
  obtain parts link' where c: "collect_name rest [] [] None = ([], parts, link')"
    and p: "list_all (\<lambda>p. p = []) parts"
    by auto
  show ?thesis
    by (simp add: parseIngredient_def la c Join_empties [OF p])
qed

lemma parseIngredients_from_append:
  "parseIngredients_from (xs @ ys) = parseIngredients_from xs @ parseIngredients_from ys"
  by (induction xs) (simp_all split: node.splits option.splits)

lemma parseIngredients_dropped:
  assumes "parseIngredient (ListItem cs) = None"
  shows "parseIngredients (List (xs @ ListItem cs # ys)) = parseIngredients (List (xs @ ys))"
  using assms by (simp add: parseIngredients_def parseIngredients_from_append)

lemma step_flags:
  assumes "n \<noteq> ThematicBreak"
  shows "firstDividerFound (step st n) = firstDividerFound st"
    and "secondDividerFound (step st n) = secondDividerFound st"
  using assms
  by (cases n; simp add: step_def addIngredientGroup_fields add_instruction_def
        add_description_def Let_def)+

lemma run_flags:
  "firstDividerFound (foldl step st ns) = (firstDividerFound st \<or> 1 \<le> divider_count ns) \<and>
   secondDividerFound (foldl step st ns) =
     (secondDividerFound st \<or> (firstDividerFound st \<and> 1 \<le> divider_count ns) \<or>
      2 \<le> divider_count ns)"
proof (induction ns arbitrary: st)
  case Nil
  show ?case by (simp add: divider_count_def)
next
  case (Cons n ns)
  show ?case
  proof (cases "n = ThematicBreak")
    case True
    then show ?thesis
      using Cons [of "step st n"] by (auto simp add: step_def divider_count_def)
  next
    case False
    then show ?thesis
      using Cons [of "step st n"] by (simp add: step_flags divider_count_def)
  qed
qed

lemma step_ingredient_list:
  assumes "firstDividerFound st" and "\<not> secondDividerFound st"
    and "parseIngredients (List xs) = parseIngredients (List ys)"
  shows "step st (List xs) = step st (List ys)"
  using assms by (simp add: step_def)

text \<open>
  C8, amended. A list item whose inline nodes after the optional amount all carry
  empty text is dropped: \<^verbatim>\<open>parseIngredient\<close> returns nil, the list's ingredients are
  those of the other items, and for a list of the ingredients section the whole
  Recipe is the one of the document without that item, so the parse does not fail
  and keeps no record of the item.
\<close>

theorem C8_nameless_item_dropped:
  assumes "list_all (\<lambda>n. inline_text n = []) (name_nodes (ListItem cs))"
  shows "parseIngredient (ListItem cs) = None \<and>
         parseIngredients (List (xs @ ListItem cs # ys)) = parseIngredients (List (xs @ ys)) \<and>
         (divider_count pre = 1 \<longrightarrow>
            recipeParser_Transform (pre @ List (xs @ ListItem cs # ys) # post) =
            recipeParser_Transform (pre @ List (xs @ ys) # post))"
proof -
  have none: "parseIngredient (ListItem cs) = None"
    by (rule parseIngredient_empty_name [OF assms])
  note same = parseIngredients_dropped [OF none, of xs ys]
  have "recipeParser_Transform (pre @ List (xs @ ListItem cs # ys) # post) =
        recipeParser_Transform (pre @ List (xs @ ys) # post)" if "divider_count pre = 1"
  proof -
    from that run_flags [of initial_state pre]
    have "firstDividerFound (foldl step initial_state pre)"
      and "\<not> secondDividerFound (foldl step initial_state pre)"
      by (simp_all add: initial_state_def)
    from step_ingredient_list [OF this same]
    show ?thesis by (simp add: recipeParser_Transform_def)
  qed
  with none same show ?thesis by simp
qed

theorem C8_nameless_item_dropped_witness:
  "parseIngredient amount_only_item = None \<and>
   parseIngredients (List ([plain_item ''flour''] @ amount_only_item # [plain_item ''salt'']))
     = [Ingredient (ustr ''flour'') None None, Ingredient (ustr ''salt'') None None] \<and>
   recipeParser_Transform
     ([Heading 1 [Text (ustr ''T'')], ThematicBreak] @
      List ([plain_item ''flour''] @ amount_only_item # [plain_item ''salt'']) # [])
   = recipeParser_Transform
     ([Heading 1 [Text (ustr ''T'')], ThematicBreak] @
      List ([plain_item ''flour''] @ [plain_item ''salt'']) # [])"
  using C8_nameless_item_dropped
    [of "[TextBlock [Emphasis 1 [Text (ustr ''2 cups'')]]]" "[plain_item ''flour'']"
        "[plain_item ''salt'']" "[Heading 1 [Text (ustr ''T'')], ThematicBreak]" "[]"]
  by (simp add: amount_only_item_def name_nodes_def inline_text_def divider_count_def
        ingredient_eval amount_eval string_eval)

text \<open>
  C8, as the specification states it, fails twice. The item \<^verbatim>\<open>*2 cups* ![](x.png)\<close> has
  the name text of one space: the emptiness test precedes the trimming, so the item
  is kept, with an empty name. And an item that is dropped leaves nothing behind:
  the Recipe equals the one of the document without the item, so no warning is
  recorded.
\<close>

theorem C8_blank_name_kept:
  "parseIngredient blank_name_item =
     Some (Ingredient [] None (Some (Amount (ustr ''2'') (Some (ustr ''cups''))))) \<and>
   recipeParser_Transform
     [Heading 1 [Text (ustr ''T'')], ThematicBreak, List [amount_only_item, plain_item ''salt'']]
   = recipeParser_Transform
     [Heading 1 [Text (ustr ''T'')], ThematicBreak, List [plain_item ''salt'']]"
  by (simp add: blank_name_item_def amount_only_item_def transform_eval ingredient_eval
        amount_eval string_eval)

section \<open>The section segmenter\<close>

lemma find_breaks_none:
  "ThematicBreak \<notin> set cs \<Longrightarrow> find_breaks cs i f s = (f, s)"
  by (induction cs arbitrary: i) auto

lemma find_breaks_first:
  "ThematicBreak \<notin> set pre \<Longrightarrow>
   find_breaks (pre @ ThematicBreak # rest) i (-1) (-1) =
   find_breaks rest (i + length pre + 1) (int i + int (length pre)) (-1)"
  by (induction pre arbitrary: i) (auto simp add: algebra_simps)

lemma find_breaks_second:
  "f \<noteq> -1 \<Longrightarrow> ThematicBreak \<notin> set mid \<Longrightarrow>
   find_breaks (mid @ ThematicBreak # post) j f (-1) = (f, int j + int (length mid))"
  by (induction mid arbitrary: j) (auto simp add: algebra_simps)

lemma breaks_one:
  assumes "ThematicBreak \<notin> set pre" and "ThematicBreak \<notin> set rest"
  shows "find_breaks (pre @ ThematicBreak # rest) 0 (-1) (-1) = (int (length pre), -1)"
  using assms by (simp add: find_breaks_first find_breaks_none)

lemma breaks_two:
  assumes "ThematicBreak \<notin> set pre" and "ThematicBreak \<notin> set mid"
  shows "find_breaks (pre @ ThematicBreak # mid @ ThematicBreak # post) 0 (-1) (-1) =
           (int (length pre), int (length pre) + 1 + int (length mid))"
  using assms by (simp add: find_breaks_first find_breaks_second)

lemma slices_one_break:
  assumes "ThematicBreak \<notin> set pre" and "ThematicBreak \<notin> set rest"
  shows "metadata_nodes (pre @ ThematicBreak # rest) = pre"
    and "ingredient_nodes (pre @ ThematicBreak # rest) = rest"
    and "instruction_nodes (pre @ ThematicBreak # rest) = []"
  by (simp_all add: metadata_nodes_def ingredient_nodes_def instruction_nodes_def
        breaks_one [OF assms] go_slice_def Let_def nat_add_distrib)

lemma slices_two_breaks:
  assumes "ThematicBreak \<notin> set pre" and "ThematicBreak \<notin> set mid"
  shows "metadata_nodes (pre @ ThematicBreak # mid @ ThematicBreak # post) = pre"
    and "ingredient_nodes (pre @ ThematicBreak # mid @ ThematicBreak # post) = mid"
    and "instruction_nodes (pre @ ThematicBreak # mid @ ThematicBreak # post) = post"
  by (simp_all add: metadata_nodes_def ingredient_nodes_def instruction_nodes_def
        breaks_two [OF assms] go_slice_def Let_def nat_add_distrib)

lemma Transform_sections:
  "recipeTransformer_Transform children =
     processMetadata (metadata_nodes children) @
     (if ingredient_nodes children = [] then []
      else [IngredientsNode (processIngredients (ingredient_nodes children))]) @
     (if instruction_nodes children = [] then []
      else [InstructionsNode (instruction_nodes children)])"
proof (cases "ThematicBreak \<in> set children")
  case False
  then have b: "find_breaks children 0 (-1) (-1) = (-1, -1)"
    by (simp add: find_breaks_none)
  show ?thesis
    by (simp add: recipeTransformer_Transform_def metadata_nodes_def ingredient_nodes_def
          instruction_nodes_def b)
next
  case True
  then obtain pre rest where doc: "children = pre @ ThematicBreak # rest"
    and pre: "ThematicBreak \<notin> set pre"
    by (auto dest: split_list_first)
  show ?thesis
  proof (cases "ThematicBreak \<in> set rest")
    case False
    note b = breaks_one [OF pre False]
    note s = slices_one_break [OF pre False]
    show ?thesis
      unfolding doc s
      by (simp add: recipeTransformer_Transform_def b go_slice_def nat_add_distrib Let_def)
  next
    case True
    then obtain mid post where rest: "rest = mid @ ThematicBreak # post"
      and mid: "ThematicBreak \<notin> set mid"
      by (auto dest: split_list_first)
    note b = breaks_two [OF pre mid, of post]
    note s = slices_two_breaks [OF pre mid, of post]
    show ?thesis
      unfolding doc rest s
      by (simp add: recipeTransformer_Transform_def b go_slice_def nat_add_distrib Let_def)
  qed
qed


lemma break_split:
  assumes "ThematicBreak \<notin> set pre"
  shows "before_break (pre @ ThematicBreak # rest) = pre"
    and "after_break (pre @ ThematicBreak # rest) = rest"
proof -
  from assms have "\<And>x. x \<in> set pre \<Longrightarrow> x \<noteq> ThematicBreak" by auto
  then show "before_break (pre @ ThematicBreak # rest) = pre"
    and "after_break (pre @ ThematicBreak # rest) = rest"
    by (simp_all add: before_break_def after_break_def takeWhile_append2 dropWhile_append2)
qed

lemma break_none:
  assumes "ThematicBreak \<notin> set ns"
  shows "before_break ns = ns" and "after_break ns = []"
  using assms by (induction ns) (auto simp add: before_break_def after_break_def)

text \<open>
  The extension parser keeps two flags instead of slices; once both are set, a further
  thematic break changes nothing: it starts no section and adds no instruction part.
\<close>

lemma step_later_break:
  "firstDividerFound st \<Longrightarrow> secondDividerFound st \<Longrightarrow> step st ThematicBreak = st"
  by (simp add: step_def)

text \<open>
  C6. For a sequence of top-level nodes with at least one thematic break, the three
  slices of \<^verbatim>\<open>recipeTransformer.Transform\<close> are the nodes before the first break, the
  nodes between the first break and the next one (or the end), and all nodes after
  the second break, later breaks included; together with the two dividing breaks
  they make up the input in its order; and the Recipe is built from exactly these
  slices, the instructions node holding its slice unchanged.
\<close>

theorem C6_three_slices:
  assumes "ThematicBreak \<in> set children"
  shows "metadata_nodes children = before_break children \<and>
         ingredient_nodes children = before_break (after_break children) \<and>
         instruction_nodes children = after_break (after_break children) \<and>
         children = metadata_nodes children @ ThematicBreak # ingredient_nodes children @
                      (if ThematicBreak \<in> set (after_break children)
                       then ThematicBreak # instruction_nodes children else []) \<and>
         recipeTransformer_Transform children =
           processMetadata (metadata_nodes children) @
           (if ingredient_nodes children = [] then []
            else [IngredientsNode (processIngredients (ingredient_nodes children))]) @
           (if instruction_nodes children = [] then []
            else [InstructionsNode (instruction_nodes children)])"
proof -
  from assms obtain pre rest where doc: "children = pre @ ThematicBreak # rest"
    and pre: "ThematicBreak \<notin> set pre"
    by (auto dest: split_list_first)
  have slices: "metadata_nodes children = before_break children \<and>
         ingredient_nodes children = before_break (after_break children) \<and>
         instruction_nodes children = after_break (after_break children) \<and>
         children = metadata_nodes children @ ThematicBreak # ingredient_nodes children @
                      (if ThematicBreak \<in> set (after_break children)
                       then ThematicBreak # instruction_nodes children else [])"
  proof (cases "ThematicBreak \<in> set rest")
    case False
    show ?thesis
      unfolding doc
      by (simp add: slices_one_break [OF pre False] break_split [OF pre] break_none [OF False]
            False)
  next
    case True
    then obtain mid post where rest: "rest = mid @ ThematicBreak # post"
      and mid: "ThematicBreak \<notin> set mid"
      by (auto dest: split_list_first)
    show ?thesis
      unfolding doc rest
      by (simp add: slices_two_breaks [OF pre mid] break_split [OF pre] break_split [OF mid])
  qed
  with Transform_sections [of children] show ?thesis by blast
qed

theorem C6_three_slices_witness:
  "metadata_nodes three_breaks_document = [Heading 1 [Text (ustr ''T'')]] \<and>
   ingredient_nodes three_breaks_document = [List [plain_item ''salt'']] \<and>
   instruction_nodes three_breaks_document =
     [Paragraph [Text (ustr ''Mix.'')], ThematicBreak, Paragraph [Text (ustr ''Bake.'')]] \<and>
   recipeTransformer_Transform three_breaks_document =
     [TitleNode (Heading 1 [Text (ustr ''T'')]),
      IngredientsNode [IngredientChild (ast_Ingredient [] (ustr ''salt''))],
      InstructionsNode
        [Paragraph [Text (ustr ''Mix.'')], ThematicBreak, Paragraph [Text (ustr ''Bake.'')]]]"
  using C6_three_slices [of three_breaks_document]
  by (simp add: three_breaks_document_def before_break_def after_break_def
        processMetadata_def processIngredients_def processIngredientList_def
        parseIngredientContent_def is_text_container_def plain_item_def string_eval)

section \<open>Documents without a divider\<close>

lemma update_keeps:
  assumes "list_all P xs" and "\<And>x. P x \<Longrightarrow> P (f x)"
  shows "list_all P (xs[d := f (xs ! d)])"
proof (cases "d < length xs")
  case True
  with assms have "P (f (xs ! d))" by (simp add: list_all_length)
  with assms(1) show ?thesis
    by (auto simp add: list_all_iff dest: subsetD [OF set_update_subset_insert])
next
  case False
  with assms(1) show ?thesis by (simp add: list_update_beyond)
qed

lemma not_section_node:
  "\<not> is_section_node (TitleNode n)" "\<not> is_section_node (TagsNode n)"
  "\<not> is_section_node (YieldsNode n)" "\<not> is_section_node (DescriptionNode ps)"
  by (simp_all add: is_section_node_def)

lemma processMetadata_loop_no_section:
  "list_all (\<lambda>c. \<not> is_section_node c) recipe \<Longrightarrow>
   list_all (\<lambda>c. \<not> is_section_node c) (processMetadata_loop recipe description nodes)"
proof (induction nodes arbitrary: recipe description)
  case Nil
  then show ?case by simp
next
  case (Cons n nodes)
  have upd: "list_all (\<lambda>c. \<not> is_section_node c)
               (recipe[d := (case recipe ! d of DescriptionNode ps \<Rightarrow> DescriptionNode (ps @ [n])
                             | other \<Rightarrow> other)])" for d
    by (rule update_keeps [OF Cons.prems, where f = "\<lambda>c. case c of DescriptionNode ps \<Rightarrow> DescriptionNode (ps @ [n]) | other \<Rightarrow> other"])
       (simp add: is_section_node_def split: recipe_child.splits)
  show ?case
    using Cons.prems upd
    by (cases n) (auto simp add: not_section_node intro!: Cons.IH split: option.splits)
qed

text \<open>
  C9, amended. For a document without a thematic break \<^verbatim>\<open>recipeTransformer.Transform\<close>
  treats every node as a metadata node: the Recipe is the one that
  \<^verbatim>\<open>processMetadata\<close> builds from the whole document, and it has neither an
  Ingredients nor an Instructions child.
\<close>

theorem C9_no_divider_all_metadata:
  assumes "ThematicBreak \<notin> set children"
  shows "recipeTransformer_Transform children = processMetadata children \<and>
         list_all (\<lambda>c. \<not> is_section_node c) (recipeTransformer_Transform children)"
proof -
  from assms have b: "find_breaks children 0 (-1) (-1) = (-1, -1)"
    by (simp add: find_breaks_none)
  have t: "recipeTransformer_Transform children = processMetadata children"
    by (simp add: recipeTransformer_Transform_def b go_slice_def)
  show ?thesis
    unfolding t by (simp add: processMetadata_def processMetadata_loop_no_section)
qed

theorem C9_no_divider_all_metadata_witness:
  "recipeTransformer_Transform
     [Heading 1 [Text (ustr ''T'')], Paragraph [Text (ustr ''d'')], List [plain_item ''salt'']]
   = [TitleNode (Heading 1 [Text (ustr ''T'')]), DescriptionNode [Paragraph [Text (ustr ''d'')]]]"
  using C9_no_divider_all_metadata
    [of "[Heading 1 [Text (ustr ''T'')], Paragraph [Text (ustr ''d'')], List [plain_item ''salt'']]"]
  by (simp add: processMetadata_def isAllEmphasis_def isAllStrong_def plain_item_def)

text \<open>
  C9, as the specification states it, fails: the transformer has no strict mode and
  no error result, and the Recipe of a document without a divider consists of the
  metadata nodes alone, no warning among them.
\<close>

theorem C9_no_failure_no_warning:
  "recipeTransformer_Transform [Heading 1 [Text (ustr ''T'')], Paragraph [Text (ustr ''d'')]]
   = [TitleNode (Heading 1 [Text (ustr ''T'')]), DescriptionNode [Paragraph [Text (ustr ''d'')]]]"
  by (simp add: recipeTransformer_Transform_def go_slice_def processMetadata_def
        isAllEmphasis_def isAllStrong_def)

section \<open>The comma splitter\<close>

lemma flush_append:
  "flush tags current = tags @ filter (\<lambda>t. t \<noteq> []) [TrimSpace current]"
  by (simp add: flush_def Let_def)

lemma splitTags_loop_runs:
  assumes "start \<le> i" and "i \<le> length runes"
    and "current = take (i - start) (drop start runes)"
  shows "splitTags_loop runes i current tags =
           tags @ filter (\<lambda>t. t \<noteq> [])
             (map TrimSpace
                (runs_between runes
                   (filter (is_boundary unicode_IsDigit runes) [i..<length runes]) start))"
  using assms
proof (induction "length runes - i" arbitrary: i start current tags)
  case 0
  then have i: "i = length runes" by simp
  with 0 have "current = drop start runes" by simp
  then show ?case
    by (simp add: i splitTags_loop.simps [of runes "length runes"] flush_append)
next
  case (Suc k)
  then have i: "i < length runes" by simp
  then have upt: "[i..<length runes] = i # [Suc i..<length runes]"
    by (simp add: upt_conv_Cons)
  from Suc.hyps(2) have k: "k = length runes - Suc i" by simp
  show ?case
  proof (cases "is_boundary unicode_IsDigit runes i")
    case True
    then have step: "splitTags_loop runes i current tags =
                     splitTags_loop runes (Suc i) [] (flush tags current)"
      using i by (subst splitTags_loop.simps) (auto simp add: is_boundary_def Let_def)
    note step
    also have "splitTags_loop runes (Suc i) [] (flush tags current) =
            flush tags current @ filter (\<lambda>t. t \<noteq> [])
              (map TrimSpace
                 (runs_between runes
                    (filter (is_boundary unicode_IsDigit runes) [Suc i..<length runes]) (Suc i)))"
      using i by (intro Suc.hyps(1) [OF k]) simp_all
    also have "\<dots> = tags @ filter (\<lambda>t. t \<noteq> [])
              (map TrimSpace
                 (runs_between runes
                    (filter (is_boundary unicode_IsDigit runes) [i..<length runes]) start))"
      using True Suc.prems(3) by (simp add: upt flush_append)
    finally show ?thesis .
  next
    case False
    then have step: "splitTags_loop runes i current tags =
                     splitTags_loop runes (Suc i) (current @ [runes ! i]) tags"
      using i by (subst splitTags_loop.simps) (auto simp add: is_boundary_def Let_def)
    have "i - start < length (drop start runes)"
      using i Suc.prems(1) by simp
    then have "take (Suc (i - start)) (drop start runes) =
               take (i - start) (drop start runes) @ [drop start runes ! (i - start)]"
      by (rule take_Suc_conv_app_nth)
    then have cur: "current @ [runes ! i] = take (Suc i - start) (drop start runes)"
      using Suc.prems(1,3) i by (simp add: Suc_diff_le)
    note step
    also have "splitTags_loop runes (Suc i) (current @ [runes ! i]) tags =
            tags @ filter (\<lambda>t. t \<noteq> [])
              (map TrimSpace
                 (runs_between runes
                    (filter (is_boundary unicode_IsDigit runes) [Suc i..<length runes]) start))"
      using i Suc.prems(1) cur by (intro Suc.hyps(1) [OF k]) simp_all
    also have "\<dots> = tags @ filter (\<lambda>t. t \<noteq> [])
              (map TrimSpace
                 (runs_between runes
                    (filter (is_boundary unicode_IsDigit runes) [i..<length runes]) start))"
      using False by (simp add: upt)
    finally show ?thesis .
  qed
qed

lemma splitTags_comma_split:
  "splitTags text = comma_split unicode_IsDigit text"
  using splitTags_loop_runs [of 0 0 "text" "[]" "[]"]
  by (simp add: splitTags_def comma_split_def)


text \<open>
  C2, amended. \<^verbatim>\<open>splitTags\<close> splits at exactly the commas that do not stand between
  two digits in the sense of \<^verbatim>\<open>unicode.IsDigit\<close>, trims the runs and discards the empty
  ones; the yields are the amounts of the same segments; and the two examples split
  as stated.
\<close>

theorem C2_comma_splitter:
  "splitTags text = comma_split unicode_IsDigit text \<and>
   parseYields text =
     map (\<lambda>part. case parseAmount (TrimSpace part) of (factor, unit) \<Rightarrow> Yield factor unit)
       (comma_split unicode_IsDigit text) \<and>
   splitTags (ustr ''4 servings, 1,5 kg'') = [ustr ''4 servings'', ustr ''1,5 kg''] \<and>
   splitTags (ustr ''tag1, tag2, tag3'') = [ustr ''tag1'', ustr ''tag2'', ustr ''tag3'']"
proof -
  have "splitTags (ustr ''4 servings, 1,5 kg'') = [ustr ''4 servings'', ustr ''1,5 kg'']"
    by (simp add: split_eval string_eval)
  moreover
  have "splitTags (ustr ''tag1, tag2, tag3'') = [ustr ''tag1'', ustr ''tag2'', ustr ''tag3'']"
    by (simp add: split_eval string_eval)
  ultimately show ?thesis
    by (simp add: splitTags_comma_split parseYields_def)
qed

theorem C2_comma_splitter_witness:
  "comma_split unicode_IsDigit (ustr ''1,5 kg, 2 cups,,x'') =
     [ustr ''1,5 kg'', ustr ''2 cups'', ustr ''x'']"
proof -
  have "splitTags (ustr ''1,5 kg, 2 cups,,x'') = [ustr ''1,5 kg'', ustr ''2 cups'', ustr ''x'']"
    by (simp add: split_eval string_eval)
  with C2_comma_splitter [of "ustr ''1,5 kg, 2 cups,,x''"] show ?thesis by simp
qed

text \<open>
  C2, as the specification states it, fails on a comma between the Arabic-Indic
  digits U+0663 and U+0664: neither is an ASCII digit, so the stated rule splits
  there, but \<^verbatim>\<open>unicode.IsDigit\<close> holds for both and \<^verbatim>\<open>splitTags\<close> keeps one segment.
\<close>

theorem C2_arabic_digits_not_split:
  "splitTags [0x663, 44, 0x664] = [[0x663, 44, 0x664]] \<and>
   \<not> ascii_digit 0x663 \<and> \<not> ascii_digit 0x664 \<and>
   comma_split ascii_digit [0x663, 44, 0x664] = [[0x663], [0x664]]"
  by (simp add: split_eval string_eval Nd_starts_def ascii_digit_def comma_split_def
        is_boundary_def upt_conv_Cons)

section \<open>The amount parser\<close>

lemma dropWhile_last:
  "dropWhile P xs \<noteq> [] \<Longrightarrow> last (dropWhile P xs) = last xs"
  by (induction xs) (auto split: if_splits)

lemma TrimSpace_Nil: "TrimSpace [] = []"
  by (simp add: TrimSpace_def)

lemma TrimSpace_ends:
  assumes "TrimSpace s \<noteq> []"
  shows "\<not> unicode_IsSpace (hd (TrimSpace s))" and "\<not> unicode_IsSpace (last (TrimSpace s))"
proof -
  let ?u = "dropWhile unicode_IsSpace s"
  let ?v = "dropWhile unicode_IsSpace (rev ?u)"
  from assms have v: "?v \<noteq> []" by (simp add: TrimSpace_def)
  have u: "?u \<noteq> []"
  proof
    assume e: "?u = []"
    show False using v unfolding e by simp
  qed
  have "hd (TrimSpace s) = last ?v"
    using v by (simp add: TrimSpace_def hd_rev)
  also have "\<dots> = last (rev ?u)" using v by (rule dropWhile_last)
  also have "\<dots> = hd ?u" using u by (simp add: last_rev)
  finally show "\<not> unicode_IsSpace (hd (TrimSpace s))"
    using hd_dropWhile [OF u] by simp
  have "last (TrimSpace s) = hd ?v"
    using v by (simp add: TrimSpace_def last_rev)
  then show "\<not> unicode_IsSpace (last (TrimSpace s))"
    using hd_dropWhile [OF v] by simp
qed

lemma TrimSpace_fixed:
  assumes "t \<noteq> []" and "\<not> unicode_IsSpace (hd t)" and "\<not> unicode_IsSpace (last t)"
  shows "TrimSpace t = t"
proof -
  from assms(1,2) have "dropWhile unicode_IsSpace t = t"
    by (cases t) simp_all
  moreover from assms(1,3) have "dropWhile unicode_IsSpace (rev t) = rev t"
    by (cases "rev t") (simp_all add: hd_rev [symmetric])
  ultimately show ?thesis by (simp add: TrimSpace_def)
qed

lemma TrimSpace_idem: "TrimSpace (TrimSpace s) = TrimSpace s"
proof (cases "TrimSpace s = []")
  case True
  then show ?thesis by (simp add: TrimSpace_Nil)
next
  case False
  from TrimSpace_fixed [OF False TrimSpace_ends [OF False]] show ?thesis .
qed

lemma parseAmount_all_number_class:
  assumes "TrimSpace s \<noteq> []" and "list_all in_number_class (TrimSpace s)"
  shows "parseAmount s = (TrimSpace s, None)"
proof -
  from assms(2) have tw: "takeWhile in_number_class (TrimSpace s) = TrimSpace s"
    by (simp add: list_all_iff)
  show ?thesis
    unfolding parseAmount_def Let_def tw
    using assms(1) by (simp add: TrimSpace_idem TrimSpace_Nil)
qed

lemma parseAmount_no_number:
  assumes "TrimSpace s = [r]" and "\<not> in_number_class r"
  shows "parseAmount s = (TrimSpace s, None)"
  using assms by (simp add: parseAmount_def Let_def)

lemma vulgar_not_in_number_class:
  "is_vulgar_fraction r \<Longrightarrow> \<not> in_number_class r"
  by (auto simp add: is_vulgar_fraction_def in_number_class_def ascii_digit_def regexp_space_def)

lemma split_at_first:
  assumes "length (takeWhile (\<lambda>r. r \<noteq> c) s) < length s"
  shows "s = takeWhile (\<lambda>r. r \<noteq> c) s @ c # drop (Suc (length (takeWhile (\<lambda>r. r \<noteq> c) s))) s"
proof -
  let ?a = "takeWhile (\<lambda>r. r \<noteq> c) s" and ?d = "dropWhile (\<lambda>r. r \<noteq> c) s"
  have s: "s = ?a @ ?d" by simp
  from assms have d: "?d \<noteq> []"
    by (metis s append_Nil2 less_irrefl)
  from hd_dropWhile [OF d] have "hd ?d = c" by simp
  with d have "?d = c # tl ?d" by (cases ?d) simp_all
  moreover have "tl ?d = drop (Suc (length ?a)) s"
    by (simp add: dropWhile_eq_drop drop_Suc tl_drop)
  ultimately show ?thesis using s by metis
qed

lemma digits_in_number_class:
  "list_all ascii_digit s \<Longrightarrow> list_all in_number_class s"
  by (simp add: list_all_iff in_number_class_def)

lemma integer_in_number_class:
  "is_integer_literal s \<Longrightarrow> s \<noteq> [] \<and> list_all in_number_class s"
  by (simp add: is_integer_literal_def digits_in_number_class)

lemma separated_in_number_class:
  assumes "length (takeWhile (\<lambda>r. r \<noteq> c) s) < length s"
    and "list_all in_number_class (takeWhile (\<lambda>r. r \<noteq> c) s)"
    and "in_number_class c"
    and "list_all in_number_class (drop (Suc (length (takeWhile (\<lambda>r. r \<noteq> c) s))) s)"
  shows "s \<noteq> [] \<and> list_all in_number_class s"
proof -
  from assms(1) have "s \<noteq> []" by auto
  moreover have "list_all in_number_class s"
    by (subst split_at_first [OF assms(1)]) (simp add: assms(2,3,4))
  ultimately show ?thesis by simp
qed

lemma decimal_in_number_class:
  assumes "is_decimal_literal c s" and "in_number_class c"
  shows "s \<noteq> [] \<and> list_all in_number_class s"
  using assms
  by (intro separated_in_number_class [of c s])
     (auto simp add: is_decimal_literal_def Let_def is_integer_literal_def
        digits_in_number_class)

lemma fraction_in_number_class:
  assumes "is_fraction_literal s"
  shows "s \<noteq> [] \<and> list_all in_number_class s"
  using assms
  by (intro separated_in_number_class [of 47 s])
     (auto simp add: is_fraction_literal_def Let_def is_integer_literal_def
        digits_in_number_class in_number_class_def)

lemma mixed_in_number_class:
  assumes "is_mixed_literal s"
  shows "s \<noteq> [] \<and> list_all in_number_class s"
proof -
  let ?w = "takeWhile (\<lambda>r. \<not> regexp_space r) s"
  let ?rest = "drop (length ?w) s"
  let ?f = "dropWhile regexp_space ?rest"
  from assms have w: "is_integer_literal ?w" and f: "is_fraction_literal ?f"
    by (simp_all add: is_mixed_literal_def Let_def)
  have s: "s = ?w @ ?rest"
    by (simp add: dropWhile_eq_drop [symmetric])
  have sp: "list_all in_number_class (takeWhile regexp_space ?rest)"
    by (auto simp add: list_all_iff in_number_class_def dest: set_takeWhileD)
  have "set ?rest = set (takeWhile regexp_space ?rest) \<union> set ?f"
    by (metis set_append takeWhile_dropWhile_id)
  then have rest: "list_all in_number_class ?rest"
    using sp fraction_in_number_class [OF f] by (auto simp add: list_all_iff)
  from w have "?w \<noteq> []" by (simp add: is_integer_literal_def)
  then have "s \<noteq> []" by auto
  moreover have "list_all in_number_class s"
    using integer_in_number_class [OF w] rest
    by (subst s) simp
  ultimately show ?thesis by simp
qed

text \<open>
  C1, amended. For every text whose trimmed content is one of the six literal forms,
  \<^verbatim>\<open>parseAmount\<close> of package extension returns that trimmed content itself as the
  factor, a string, and no unit; no number is computed from it.
\<close>

theorem C1_factor_is_literal:
  assumes "is_amount_literal (TrimSpace s)"
  shows "parseAmount s = (TrimSpace s, None)"
proof -
  let ?t = "TrimSpace s"
  consider "is_integer_literal ?t" | "is_decimal_literal 46 ?t" | "is_decimal_literal 44 ?t"
    | "is_fraction_literal ?t" | "is_mixed_literal ?t"
    | r where "?t = [r]" and "is_vulgar_fraction r"
    using assms by (auto simp add: is_amount_literal_def split: list.splits)
  then show ?thesis
  proof cases
    case 1
    from integer_in_number_class [OF this] show ?thesis
      by (simp add: parseAmount_all_number_class)
  next
    case 2
    then have "?t \<noteq> [] \<and> list_all in_number_class ?t"
      by (rule decimal_in_number_class) (simp add: in_number_class_def)
    then show ?thesis by (simp add: parseAmount_all_number_class)
  next
    case 3
    then have "?t \<noteq> [] \<and> list_all in_number_class ?t"
      by (rule decimal_in_number_class) (simp add: in_number_class_def)
    then show ?thesis by (simp add: parseAmount_all_number_class)
  next
    case 4
    from fraction_in_number_class [OF this] show ?thesis
      by (simp add: parseAmount_all_number_class)
  next
    case 5
    from mixed_in_number_class [OF this] show ?thesis
      by (simp add: parseAmount_all_number_class)
  next
    case 6
    from parseAmount_no_number [OF 6(1) vulgar_not_in_number_class [OF 6(2)]]
    show ?thesis .
  qed
qed


theorem C1_factor_is_literal_witness:
  "parseAmount (ustr '' 2 1/4 '') = (ustr ''2 1/4'', None) \<and>
   parseAmount (ustr ''1,5'') = (ustr ''1,5'', None) \<and>
   parseAmount [32, 0xBD] = ([0xBD], None)"
  using C1_factor_is_literal [of "ustr '' 2 1/4 ''"] C1_factor_is_literal [of "ustr ''1,5''"]
    C1_factor_is_literal [of "[32, 0xBD]"]
  by (simp add: is_amount_literal_def is_integer_literal_def is_decimal_literal_def
        is_fraction_literal_def is_mixed_literal_def is_vulgar_fraction_def
        ascii_digit_def regexp_space_def string_eval)

text \<open>
  C1, as the specification states it, fails: the quantity that the amount parsers
  return is a string. For \<open>2 1/4\<close> the extension's factor is the text \<open>2 1/4\<close>, not
  2.25 nor its numeral, and for the one-half code point it is that code point, not
  0.5; \<^verbatim>\<open>parseAmount\<close> of package recipemd cuts \<open>2 1/4\<close> at its space into the
  quantity \<open>2\<close> and the unit \<open>1/4\<close>.
\<close>

theorem C1_quantity_is_text:
  "parseAmount (ustr ''2 1/4'') = (ustr ''2 1/4'', None) \<and>
   fst (parseAmount (ustr ''2 1/4'')) \<noteq> ustr ''2.25'' \<and>
   parseAmount [0xBD] = ([0xBD], None) \<and>
   fst (parseAmount [0xBD]) \<noteq> ustr ''0.5'' \<and>
   recipemd_parseAmount (ustr ''2 1/4'') = recipemd_Amount (ustr ''2'') (ustr ''1/4'')"
  by (simp add: amount_eval recipemd_parseAmount_def string_eval)

end
